theory Spec2Isabelle
  imports Main "HOL-Library.Sublist" "HOL-Library.Word"
begin

section \<open>Go strings and the library functions the logger calls\<close>

text \<open>
  A Go string is a sequence of bytes; \<open>len\<close> counts bytes and slicing is by byte
  offset.  It is modelled as \<^typ>\<open>string\<close> (a list of 8-bit characters), so
  \<open>s[:i]\<close> is \<open>take i s\<close> and \<open>s[i:]\<close> is \<open>drop i s\<close>.  The functions of package
  \<open>strings\<close> return \<open>-1\<close> for "not found"; the model keeps that convention and
  the type \<^typ>\<open>int\<close>.
\<close>

fun HasPrefix :: "string \<Rightarrow> string \<Rightarrow> bool" where
  "HasPrefix s [] = True"
| "HasPrefix [] (p # ps) = False"
| "HasPrefix (c # s) (p # ps) = (c = p \<and> HasPrefix s ps)"

text \<open>\<open>strings.Index(s, substr)\<close>: byte offset of the first occurrence, or \<open>-1\<close>.\<close>

fun Index :: "string \<Rightarrow> string \<Rightarrow> int" where
  "Index [] substr = (if substr = [] then 0 else -1)"
| "Index (c # s) substr =
     (if HasPrefix (c # s) substr then 0
      else (let r = Index s substr in if r = -1 then -1 else r + 1))"

text \<open>\<open>strings.IndexRune(s, r)\<close> for an ASCII rune \<open>r\<close> (the only use in the logger):
  the offset of the first byte equal to \<open>r\<close>, or \<open>-1\<close>.\<close>

fun IndexRune :: "string \<Rightarrow> char \<Rightarrow> int" where
  "IndexRune [] r = -1"
| "IndexRune (c # s) r =
     (if c = r then 0
      else (let i = IndexRune s r in if i = -1 then -1 else i + 1))"

text \<open>\<open>strings.LastIndex(s, substr)\<close>: byte offset of the last occurrence, or \<open>-1\<close>.\<close>

fun LastIndex :: "string \<Rightarrow> string \<Rightarrow> int" where
  "LastIndex [] substr = (if substr = [] then 0 else -1)"
| "LastIndex (c # s) substr =
     (let r = LastIndex s substr in
      if r \<noteq> -1 then r + 1
      else if HasPrefix (c # s) substr then 0 else -1)"

subsection \<open>Decimal printing\<close>

definition digit_char :: "nat \<Rightarrow> char" where
  "digit_char d = ''0123456789'' ! d"

fun fmt_nat :: "nat \<Rightarrow> string" where
  "fmt_nat n = (if n < 10 then [digit_char n] else fmt_nat (n div 10) @ [digit_char (n mod 10)])"

declare fmt_nat.simps [simp del]

definition fmt_int :: "int \<Rightarrow> string" where
  "fmt_int i = (if i < 0 then CHR ''-'' # fmt_nat (nat (- i)) else fmt_nat (nat i))"

subsection \<open>A fragment of \<open>fmt.Sprintf\<close>\<close>

text \<open>
  \<open>fmt.Sprintf\<close> belongs to Go's standard library, not to the repository.  The model
  below follows \<open>doPrintf\<close> of package \<open>fmt\<close> for the three dynamic types that
  \<open>Info.Output\<close> passes (\<open>uint64\<close>, \<open>string\<close>, \<open>int\<close>) and for the features that
  the logger's placeholder table produces: literal text, \<open>%%\<close>, explicit argument
  indexes \<open>[n]\<close>, a precision \<open>.n\<close>, and the verbs \<open>d\<close>, \<open>s\<close>, \<open>v\<close>, together with
  the diagnostics \<open>%!(NOVERB)\<close>, \<open>%!v(BADINDEX)\<close>, \<open>%!v(MISSING)\<close>, \<open>%!v(type=value)\<close>
  and \<open>%!(EXTRA ...)\<close>.  A format that uses anything else (flags, a width, \<open>*\<close>,
  another verb, a precision on an integer or on a non-ASCII string) is outside the
  fragment and the model answers \<open>None\<close> rather than guess.
\<close>

datatype arg = AUint64 "64 word" | AString string | AInt int

fun typeName :: "arg \<Rightarrow> string" where
  "typeName (AUint64 w) = ''uint64''"
| "typeName (AString s) = ''string''"
| "typeName (AInt i) = ''int''"

text \<open>The verb \<open>%v\<close> without flags.\<close>

fun fmt_v :: "arg \<Rightarrow> string" where
  "fmt_v (AUint64 w) = fmt_nat (unat w)"
| "fmt_v (AString s) = s"
| "fmt_v (AInt i) = fmt_int i"

definition is_digit :: "char \<Rightarrow> bool" where
  "is_digit c = ((48::int) \<le> of_char c \<and> of_char c \<le> (57::int))"

definition digit_val :: "char \<Rightarrow> int" where
  "digit_val c = of_char c - 48"

text \<open>\<open>parsenum\<close>: the leading decimal digits of the text.  The result is the number,
  whether a digit was read, and the rest of the text; \<open>None\<close> is Go's \<open>tooLarge\<close>
  exit (the number passed \<open>10^6\<close> with digits still to come).\<close>

fun parsenum :: "int \<Rightarrow> bool \<Rightarrow> string \<Rightarrow> (int \<times> bool \<times> string) option" where
  "parsenum num isnum [] = Some (num, isnum, [])"
| "parsenum num isnum (c # s) =
     (if is_digit c
      then (if num > 1000000 then None else parsenum (num * 10 + digit_val c) True s)
      else Some (num, isnum, c # s))"

text \<open>\<open>parseArgNumber\<close>: the text starts with \<open>[\<close>.  The result is the zero-based
  index, the number of bytes to skip, and whether the index was well formed.\<close>

definition parseArgNumber :: "string \<Rightarrow> int \<times> nat \<times> bool" where
  "parseArgNumber fmt =
     (if length fmt < 3 then (0, 1, False)
      else (let body = takeWhile (\<lambda>c. c \<noteq> CHR '']'') (tl fmt) in
        if length body = length (tl fmt) then (0, 1, False)
        else (case parsenum 0 False body of
                Some (width, True, []) \<Rightarrow> (width - 1, length body + 2, True)
              | _ \<Rightarrow> (0, length body + 2, False))))"

text \<open>The printer state that matters between verbs: the next argument, whether an
  index has been seen in this call (\<open>reordered\<close>), and per verb whether its index
  was good (\<open>goodArgNum\<close>).  \<open>argNumber\<close> returns the new argument number, the rest
  of the format, whether an index was found, and the two flags.\<close>

definition argNumber ::
  "nat \<Rightarrow> string \<Rightarrow> nat \<Rightarrow> bool \<Rightarrow> bool \<Rightarrow> nat \<times> string \<times> bool \<times> bool \<times> bool" where
  "argNumber argNum fmt numArgs reordered goodArgNum =
     (if fmt = [] \<or> hd fmt \<noteq> CHR ''['' then (argNum, fmt, False, reordered, goodArgNum)
      else (case parseArgNumber fmt of (index, wid, ok) \<Rightarrow>
        if ok \<and> 0 \<le> index \<and> index < int numArgs
        then (nat index, drop wid fmt, True, True, goodArgNum)
        else (argNum, drop wid fmt, ok, True, False)))"

text \<open>\<open>truncateString\<close> cuts after \<open>prec\<close> runes; on ASCII text runes are bytes.\<close>

definition truncateString :: "int option \<Rightarrow> string \<Rightarrow> string option" where
  "truncateString prec s =
     (case prec of None \<Rightarrow> Some s
      | Some n \<Rightarrow> if list_all (\<lambda>c. of_char c < (128::int)) s then Some (take (nat n) s) else None)"

text \<open>\<open>printArg\<close> for the verbs of the fragment.  A verb that does not fit the
  argument's type prints Go's bad-verb form \<open>%!verb(type=value)\<close>.\<close>

definition printArg :: "arg \<Rightarrow> char \<Rightarrow> int option \<Rightarrow> string option" where
  "printArg a verb prec =
     (if verb \<noteq> CHR ''d'' \<and> verb \<noteq> CHR ''s'' \<and> verb \<noteq> CHR ''v'' then None
      else (case a of
          AString s \<Rightarrow>
            (case truncateString prec s of None \<Rightarrow> None
             | Some t \<Rightarrow> if verb = CHR ''d'' then Some (''%!d(string='' @ t @ '')'') else Some t)
        | _ \<Rightarrow>
            (if prec \<noteq> None then None
             else if verb = CHR ''s'' then Some (''%!s('' @ typeName a @ ''='' @ fmt_v a @ '')'')
             else Some (fmt_v a))))"

text \<open>One verb: the text after a \<open>%\<close>.  The result is the output of the verb, the
  rest of the format, the next argument number and the \<open>reordered\<close> flag.\<close>

definition doVerb ::
  "arg list \<Rightarrow> string \<Rightarrow> nat \<Rightarrow> bool \<Rightarrow> (string \<times> string \<times> nat \<times> bool) option" where
  "doVerb a fmt argNum reordered =
     (if fmt \<noteq> [] \<and> hd fmt \<in> set ''#0+- '' then None
      else (case argNumber argNum fmt (length a) reordered True of
        (argNum1, f1, afterIndex1, reordered1, good1) \<Rightarrow>
      if f1 \<noteq> [] \<and> (hd f1 = CHR ''*'' \<or> is_digit (hd f1)) then None
      else (case
          (if f1 \<noteq> [] \<and> hd f1 = CHR ''.''
           then (case argNumber argNum1 (tl f1) (length a) reordered1 (good1 \<and> \<not> afterIndex1) of
                  (argNum2, f2, afterIndex2, reordered2, good2) \<Rightarrow>
                    if f2 \<noteq> [] \<and> hd f2 = CHR ''*'' then None
                    else (case parsenum 0 False f2 of None \<Rightarrow> None
                          | Some (n, isnum, f3) \<Rightarrow>
                              Some (argNum2, f3, afterIndex2, reordered2, good2,
                                    Some (if isnum then n else 0))))
           else Some (argNum1, f1, afterIndex1, reordered1, good1, None)) of
          None \<Rightarrow> None
        | Some (argNum3, f3, afterIndex3, reordered3, good3, prec) \<Rightarrow>
      (case (if afterIndex3 then (argNum3, f3, afterIndex3, reordered3, good3)
             else argNumber argNum3 f3 (length a) reordered3 good3) of
        (argNum4, f4, afterIndex4, reordered4, good4) \<Rightarrow>
      if f4 = [] then Some (''%!(NOVERB)'', [], argNum4, reordered4)
      else (let verb = hd f4; rest = tl f4 in
        if of_char verb \<ge> (128::int) then None
        else if verb = CHR ''%'' then Some (''%'', rest, argNum4, reordered4)
        else if \<not> good4 then Some (''%!'' @ [verb] @ ''(BADINDEX)'', rest, argNum4, reordered4)
        else if argNum4 \<ge> length a then Some (''%!'' @ [verb] @ ''(MISSING)'', rest, argNum4, reordered4)
        else (case printArg (a ! argNum4) verb prec of None \<Rightarrow> None
              | Some s \<Rightarrow> Some (s, rest, argNum4 + 1, reordered4)))))))"

text \<open>After the format is used up: the report of arguments that no verb consumed,
  unless an explicit index was used anywhere in the format.\<close>

fun commaSep :: "string list \<Rightarrow> string" where
  "commaSep [] = []"
| "commaSep [x] = x"
| "commaSep (x # y # ys) = x @ '', '' @ commaSep (y # ys)"

definition extraArgs :: "arg list \<Rightarrow> nat \<Rightarrow> bool \<Rightarrow> string" where
  "extraArgs a argNum reordered =
     (if \<not> reordered \<and> argNum < length a
      then ''%!(EXTRA '' @ commaSep (map (\<lambda>x. typeName x @ ''='' @ fmt_v x) (drop argNum a)) @ '')''
      else [])"

text \<open>The scan of the format: bytes up to the next \<open>%\<close> are copied, then one verb is
  processed.  Every verb consumes at least the \<open>%\<close>, so the scan ends.\<close>

lemma parsenum_length: "parsenum num isnum s = Some (n, b, r) \<Longrightarrow> length r \<le> length s"
proof (induction s arbitrary: num isnum)
  case Nil
  then show ?case by simp
next
  case (Cons c s)
  show ?case
  proof (cases "is_digit c")
    case True
    with Cons.prems have "parsenum (num * 10 + digit_val c) True s = Some (n, b, r)"
      by (simp split: if_splits)
    from Cons.IH [OF this] show ?thesis by simp
  next
    case False
    with Cons.prems show ?thesis by simp
  qed
qed

lemma argNumber_length:
  "argNumber argNum fmt numArgs reordered good = (n, r, b, ro, g) \<Longrightarrow> length r \<le> length fmt"
  by (auto simp: argNumber_def split: if_splits prod.splits)

lemma doVerb_length:
  assumes "doVerb a fmt argNum reordered = Some (out, r, n, ro)"
  shows "length r \<le> length fmt"
proof -
  have tl_le: "\<And>xs ys :: string. length xs \<le> length ys \<Longrightarrow> length (tl xs) \<le> length ys"
    by simp
  from assms show ?thesis
    unfolding doVerb_def Let_def
    by (auto split: if_splits prod.splits option.splits
             dest!: argNumber_length parsenum_length intro: tl_le order_trans)
qed

function doPrintf :: "arg list \<Rightarrow> string \<Rightarrow> nat \<Rightarrow> bool \<Rightarrow> string option" where
  "doPrintf a [] argNum reordered = Some (extraArgs a argNum reordered)"
| "doPrintf a (c # fmt) argNum reordered =
     (if c \<noteq> CHR ''%''
      then (case doPrintf a fmt argNum reordered of None \<Rightarrow> None | Some s \<Rightarrow> Some (c # s))
      else (case doVerb a fmt argNum reordered of
              None \<Rightarrow> None
            | Some (out, fmt', argNum', reordered') \<Rightarrow>
                (case doPrintf a fmt' argNum' reordered' of
                   None \<Rightarrow> None
                 | Some s \<Rightarrow> Some (out @ s))))"
  by pat_completeness auto
termination
  by (relation "measure (\<lambda>(a, fmt, argNum, reordered). length fmt)")
     (auto dest: doVerb_length)

definition Sprintf :: "string \<Rightarrow> arg list \<Rightarrow> string option" where
  "Sprintf fmt a = doPrintf a fmt 0 False"

section \<open>The logger's data\<close>

text \<open>\<open>type LogLevel int\<close> with the constants \<open>CriticalLevel = iota + 1\<close> onwards.
  Go's \<open>int\<close> has 64 bits; the logger only compares levels and subtracts one from
  a level before indexing an array of six names, and the index is out of range
  with or without wrap-around for every level outside \<open>1..6\<close>, so the unbounded
  \<^typ>\<open>int\<close> gives the same results.\<close>

type_synonym LogLevel = int

definition CriticalLevel :: LogLevel where "CriticalLevel = 1"
definition ErrorLevel :: LogLevel where "ErrorLevel = 2"
definition WarningLevel :: LogLevel where "WarningLevel = 3"
definition NoticeLevel :: LogLevel where "NoticeLevel = 4"
definition InfoLevel :: LogLevel where "InfoLevel = 5"
definition DebugLevel :: LogLevel where "DebugLevel = 6"

text \<open>The colour numbers \<open>Black = iota + 30\<close> onwards.\<close>

definition Black :: int where "Black = 30"
definition Red :: int where "Red = 31"
definition Green :: int where "Green = 32"
definition Yellow :: int where "Yellow = 33"
definition Blue :: int where "Blue = 34"
definition Magenta :: int where "Magenta = 35"
definition Cyan :: int where "Cyan = 36"
definition White :: int where "White = 37"

text \<open>What stops a call instead of a normal return: a Go panic, a \<open>Lock\<close> on a
  mutex that is already held (in a sequential run the call never returns), or a
  step outside the modelled fragment of the standard library.\<close>

datatype failure = Panic string | Deadlock | Unmodelled

record Info =
  Id :: "64 word"
  Time :: string
  Module :: string
  Level :: LogLevel
  Line :: int
  Filename :: string
  Message :: string
  Category :: string

text \<open>\<open>logLevelString\<close> indexes a fixed array of six names with \<open>info.Level-1\<close>;
  Go panics when the index is outside the array.\<close>

definition logLevels :: "string list" where
  "logLevels = [''CRITICAL'', ''ERROR'', ''WARNING'', ''NOTICE'', ''INFO'', ''DEBUG'']"

definition logLevelString :: "Info \<Rightarrow> failure + string" where
  "logLevelString info =
     (let i = Level info - 1 in
      if 0 \<le> i \<and> i < int (length logLevels) then Inr (logLevels ! nat i)
      else Inl (Panic ''runtime error: index out of range''))"

text \<open>The marker that \<open>Sprintf\<close> writes in front of unused arguments.\<close>

definition extraMarker :: string where
  "extraMarker = ''%!(EXTRA''"

text \<open>\<open>Info.Output\<close>: the eight arguments are evaluated first (the level name can
  panic), then formatted, then the text is cut at the last marker.\<close>

definition Output :: "Info \<Rightarrow> string \<Rightarrow> failure + string" where
  "Output r fmt =
     (case logLevelString r of
        Inl e \<Rightarrow> Inl e
      | Inr lvl \<Rightarrow>
          (case Sprintf fmt [AUint64 (Id r), AString (Time r), AString (Module r),
                             AString (Filename r), AInt (Line r), AString lvl,
                             AString (Message r), AString (Category r)] of
             None \<Rightarrow> Inl Unmodelled
           | Some msg \<Rightarrow>
               (let i = LastIndex msg extraMarker in
                if i \<noteq> -1 then Inr (take (nat i) msg) else Inr msg)))"

text \<open>The process-wide defaults as the package initialises them.  The arrow of the
  default format is U+25B6, three bytes in UTF-8.\<close>

definition arrow :: string where
  "arrow = [CHR 0xE2, CHR 0x96, CHR 0xB6]"

definition initial_defFmt :: string where
  "initial_defFmt = ''#%[1]d %[2]s %[4]s:%[5]d '' @ arrow @ '' %.3[6]s %[7]s''"

definition initial_defTimeFmt :: string where
  "initial_defTimeFmt = ''2006-01-02 15:04:05''"

section \<open>The format compiler\<close>

text \<open>The placeholder table \<open>phfs\<close>, filled once by \<open>initFormatPlaceholders\<close>.
  Reading a Go map at a missing key gives the zero value, the empty string.\<close>

definition phfs_table :: "(string \<times> string) list" where
  "phfs_table =
     [(''%{id}'', ''%[1]d''),
      (''%{time}'', ''%[2]s''),
      (''%{module}'', ''%[3]s''),
      (''%{filename}'', ''%[4]s''),
      (''%{file}'', ''%[4]s''),
      (''%{line}'', ''%[5]d''),
      (''%{level}'', ''%[6]s''),
      (''%{lvl}'', ''%.3[6]s''),
      (''%{message}'', ''%[7]s''),
      (''%{category}'', ''%[8]s'')]"

definition phfs :: "string \<Rightarrow> string" where
  "phfs ph = (case map_of phfs_table ph of None \<Rightarrow> [] | Some verb \<Rightarrow> verb)"

definition ph2verb :: "string \<Rightarrow> string \<times> string" where
  "ph2verb ph =
     (let n = length ph in
      if n < 4 then ([], [])
      else if ph ! 0 \<noteq> CHR ''%'' \<or> ph ! 1 \<noteq> CHR ''{'' \<or> ph ! (n - 1) \<noteq> CHR ''}'' then ([], [])
      else (let idx = IndexRune ph (CHR '':'') in
        if idx = -1 then (phfs ph, [])
        else (phfs (take (nat idx) ph @ ''}''), drop (nat idx + 1) (take (n - 1) ph))))"

text \<open>The loop of \<open>parseFormat\<close> has the variables \<open>msgfmt\<close>, \<open>timefmt\<close>, \<open>format\<close>
  and \<open>idx\<close> as its state.  \<open>loop_body\<close> is one pass through the body, entered with
  \<open>idx \<noteq> -1\<close>; it returns the state at the next loop test.  The \<open>continue\<close> of the
  source jumps to the loop test without recomputing \<open>idx\<close>, which then still
  holds the offset of the next \<open>%{\<close> in \<open>format[1:]\<close>.  When at most two bytes
  are left at a \<open>%\<close> the body changes nothing but \<open>idx\<close>, which becomes 0.\<close>

definition loop_body ::
  "string \<Rightarrow> string \<Rightarrow> string \<Rightarrow> int \<Rightarrow> string \<times> string \<times> string \<times> int" where
  "loop_body msgfmt timefmt fmt idx =
     (let msgfmt1 = msgfmt @ take (nat idx) fmt;
          fmt1 = drop (nat idx) fmt in
      if length fmt1 > 2 then
        (if fmt1 ! 1 = CHR ''{'' then
           (let jdx = IndexRune fmt1 (CHR ''}'') in
            if jdx \<noteq> -1 then
              (let idx1 = Index (drop 1 fmt1) ''%{'' in
               if idx1 \<noteq> -1 \<and> idx1 < jdx
               then (msgfmt1 @ ''%%'', timefmt, drop 1 fmt1, idx1)
               else (case ph2verb (take (nat jdx + 1) fmt1) of (verb, arg) \<Rightarrow>
                 (let msgfmt2 = msgfmt1 @ verb;
                      timefmt2 = (if verb = ''%[2]s'' \<and> arg \<noteq> [] then arg else timefmt);
                      fmt2 = drop (nat jdx + 1) fmt1 in
                  (msgfmt2, timefmt2, fmt2, IndexRune fmt2 (CHR ''%'')))))
            else (let fmt2 = drop 1 fmt1 in
                  (msgfmt1, timefmt, fmt2, IndexRune fmt2 (CHR ''%''))))
         else (let fmt2 = drop 1 fmt1 in
               (msgfmt1 @ ''%%'', timefmt, fmt2, IndexRune fmt2 (CHR ''%''))))
      else (msgfmt1, timefmt, fmt1, IndexRune fmt1 (CHR ''%'')))"

text \<open>The loop \<open>for idx != -1 { ... }\<close> and the statement after it.  The loop need not
  end (see above); \<open>None\<close> stands for a run that never leaves it.\<close>

partial_function (option) parseLoop ::
  "string \<Rightarrow> string \<Rightarrow> string \<Rightarrow> int \<Rightarrow> (string \<times> string) option" where
  "parseLoop msgfmt timefmt fmt idx =
     (if idx \<noteq> -1
      then (case loop_body msgfmt timefmt fmt idx of
              (msgfmt', timefmt', fmt', idx') \<Rightarrow> parseLoop msgfmt' timefmt' fmt' idx')
      else Some (msgfmt @ fmt, timefmt))"

declare parseLoop.simps [code]

text \<open>The state of the process: the two mutable defaults, the counter of log
  records, the mutexes allocated so far (the address of a mutex is its position;
  \<open>True\<close> means held), and the trace of \<open>Write\<close> calls on the sinks.\<close>

type_synonym Writer = nat

definition os_Stderr :: Writer where
  "os_Stderr = 0"

record world =
  defFmt :: string
  defTimeFmt :: string
  logNo :: "64 word"
  mutexes :: "bool list"
  written :: "(Writer \<times> string) list"

definition initial_world :: world where
  "initial_world =
     \<lparr>defFmt = initial_defFmt, defTimeFmt = initial_defTimeFmt, logNo = 0,
      mutexes = [], written = []\<rparr>"

definition parseFormat :: "world \<Rightarrow> string \<Rightarrow> (string \<times> string) option" where
  "parseFormat \<sigma> fmt =
     (if length fmt < 10 then Some (defFmt \<sigma>, defTimeFmt \<sigma>)
      else parseLoop [] (defTimeFmt \<sigma>) fmt (IndexRune fmt (CHR ''%'')))"

definition SetDefaultFormat :: "string \<Rightarrow> world \<Rightarrow> world option" where
  "SetDefaultFormat fmt \<sigma> =
     (case parseFormat \<sigma> fmt of
        None \<Rightarrow> None
      | Some (m, t) \<Rightarrow> Some (\<sigma>\<lparr>defFmt := m, defTimeFmt := t\<rparr>))"

section \<open>Worker and Logger\<close>

text \<open>What a call reads from outside the process: the call stack as
  \<open>runtime.Caller\<close> reports it (file and line for a depth), the clock as
  \<open>time.Now().Format\<close> renders it for a layout, and the error a sink answers to a
  \<open>Write\<close>.\<close>

record environment =
  Caller :: "int \<Rightarrow> string \<times> int"
  Now_Format :: "string \<Rightarrow> string"
  Write_error :: "Writer \<Rightarrow> string option"

text \<open>\<open>*log.Logger\<close> of the standard library, as \<open>log.New(out, prefix, flag)\<close> builds it.\<close>

record log_Logger =
  out :: Writer
  log_prefix :: string
  flag :: int

record Worker =
  Minion :: log_Logger
  Color :: int
  format :: string
  timeFormat :: string
  level :: LogLevel
  lock :: nat

text \<open>The field \<open>Module\<close> of \<open>Logger\<close> is written \<open>Logger_Module\<close>, since \<open>Info\<close> has
  a field of the same name.\<close>

record Logger =
  Logger_Module :: string
  worker :: Worker
  posOverride :: int
  WriteLock :: nat

subsection \<open>Mutexes\<close>

text \<open>\<open>&sync.Mutex{}\<close> allocates a fresh, free mutex.\<close>

definition new_Mutex :: "world \<Rightarrow> nat \<times> world" where
  "new_Mutex \<sigma> = (length (mutexes \<sigma>), \<sigma>\<lparr>mutexes := mutexes \<sigma> @ [False]\<rparr>)"

text \<open>An address outside the store stands for a nil pointer.\<close>

definition mutex_Lock :: "nat \<Rightarrow> world \<Rightarrow> failure + world" where
  "mutex_Lock m \<sigma> =
     (if m \<ge> length (mutexes \<sigma>)
      then Inl (Panic ''runtime error: invalid memory address or nil pointer dereference'')
      else if mutexes \<sigma> ! m then Inl Deadlock
      else Inr (\<sigma>\<lparr>mutexes := (mutexes \<sigma>)[m := True]\<rparr>))"

definition mutex_Unlock :: "nat \<Rightarrow> world \<Rightarrow> world" where
  "mutex_Unlock m \<sigma> = \<sigma>\<lparr>mutexes := (mutexes \<sigma>)[m := False]\<rparr>"

subsection \<open>Writing a line\<close>

text \<open>\<open>(*log.Logger).Output\<close> with flag \<open>0\<close>, the only flag the repository passes:
  the prefix, the text, a newline unless the text ends in one, sent to the sink
  in one \<open>Write\<close>.  Other flags add a header from the clock and the stack and are
  not modelled.\<close>

definition log_Output ::
  "environment \<Rightarrow> log_Logger \<Rightarrow> int \<Rightarrow> string \<Rightarrow> world \<Rightarrow> failure + (string option \<times> world)" where
  "log_Output env l calldepth s \<sigma> =
     (if flag l \<noteq> 0 then Inl Unmodelled
      else (let buf = log_prefix l @ s @ (if s = [] \<or> last s \<noteq> CHR 0x0A then [CHR 0x0A] else [])
            in Inr (Write_error env (out l), \<sigma>\<lparr>written := written \<sigma> @ [(out l, buf)]\<rparr>)))"

subsection \<open>Colours\<close>

text \<open>\<open>colorString\<close> is \<open>fmt.Sprintf("\033[%dm", color)\<close>.\<close>

definition colorString :: "int \<Rightarrow> string" where
  "colorString color = [CHR 0x1B, CHR ''[''] @ fmt_int color @ ''m''"

definition colors_table :: "(LogLevel \<times> string) list" where
  "colors_table =
     [(CriticalLevel, colorString Magenta),
      (ErrorLevel, colorString Red),
      (WarningLevel, colorString Yellow),
      (NoticeLevel, colorString Green),
      (DebugLevel, colorString Cyan),
      (InfoLevel, colorString White)]"

definition colors :: "LogLevel \<Rightarrow> string" where
  "colors lvl = (case map_of colors_table lvl of None \<Rightarrow> [] | Some c \<Rightarrow> c)"

definition color_reset :: string where
  "color_reset = [CHR 0x1B, CHR ''['', CHR ''0'', CHR ''m'']"

subsection \<open>Worker\<close>

definition NewWorker :: "string \<Rightarrow> int \<Rightarrow> int \<Rightarrow> Writer \<Rightarrow> nat \<Rightarrow> world \<Rightarrow> Worker" where
  "NewWorker pfx flg color wr lck \<sigma> =
     \<lparr>Minion = \<lparr>out = wr, log_prefix = pfx, flag = flg\<rparr>, Color = color,
      format = defFmt \<sigma>, timeFormat = defTimeFmt \<sigma>, level = 0, lock = lck\<rparr>"

definition Worker_SetFormat :: "Worker \<Rightarrow> string \<Rightarrow> world \<Rightarrow> Worker option" where
  "Worker_SetFormat w fmt \<sigma> =
     (case parseFormat \<sigma> fmt of
        None \<Rightarrow> None
      | Some (m, t) \<Rightarrow> Some (w\<lparr>format := m, timeFormat := t\<rparr>))"

definition Worker_SetLogLevel :: "Worker \<Rightarrow> LogLevel \<Rightarrow> Worker" where
  "Worker_SetLogLevel w lvl = w\<lparr>level := lvl\<rparr>"

text \<open>\<open>Worker.Log\<close>.  The result is the byte count and the sink's error, with the
  new state of the process.  The deferred \<open>Unlock\<close> runs on every way out once
  the lock is taken.\<close>

definition Worker_Log ::
  "environment \<Rightarrow> Worker \<Rightarrow> LogLevel \<Rightarrow> int \<Rightarrow> Info \<Rightarrow> world
     \<Rightarrow> failure + ((int \<times> string option) \<times> world)" where
  "Worker_Log env w lvl calldepth info \<sigma> =
     (if level w < lvl then Inr ((0, None), \<sigma>)
      else (case mutex_Lock (lock w) \<sigma> of
          Inl e \<Rightarrow> Inl e
        | Inr \<sigma>1 \<Rightarrow>
            (if Color w \<noteq> 0 then
               (case Output info (format w) of
                  Inl e \<Rightarrow> Inl e
                | Inr output \<Rightarrow>
                    (let buf = colors lvl @ output @ color_reset
                     in case log_Output env (Minion w) (calldepth + 1) buf \<sigma>1 of
                          Inl e \<Rightarrow> Inl e
                        | Inr (err, \<sigma>2) \<Rightarrow>
                            Inr ((int (length buf), err), mutex_Unlock (lock w) \<sigma>2)))
             else
               (case Output info (format w) of
                  Inl e \<Rightarrow> Inl e
                | Inr output \<Rightarrow>
                    (case log_Output env (Minion w) (calldepth + 1) output \<sigma>1 of
                       Inl e \<Rightarrow> Inl e
                     | Inr (err, \<sigma>2) \<Rightarrow>
                         Inr ((int (length output), err), mutex_Unlock (lock w) \<sigma>2))))))"

subsection \<open>Logger\<close>

text \<open>The variadic arguments of \<open>New\<close> and \<open>Update\<close> are values of any type; the
  type switch tells four dynamic types apart and everything else (a float, a
  nil, a struct) falls to \<open>default\<close>.\<close>

datatype argument =
  ArgString string | ArgInt int | ArgWriter Writer | ArgLogLevel LogLevel | ArgOther

fun New_args ::
  "argument list \<Rightarrow> string \<times> int \<times> Writer \<times> LogLevel
     \<Rightarrow> failure + (string \<times> int \<times> Writer \<times> LogLevel)" where
  "New_args [] acc = Inr acc"
| "New_args (arg # args) (module, color, wr, lvl) =
     (case arg of
        ArgString t \<Rightarrow> New_args args (t, color, wr, lvl)
      | ArgInt t \<Rightarrow> New_args args (module, t, wr, lvl)
      | ArgWriter t \<Rightarrow> New_args args (module, color, t, lvl)
      | ArgLogLevel t \<Rightarrow> New_args args (module, color, wr, t)
      | ArgOther \<Rightarrow> Inl (Panic ''logger: Unknown argument''))"

text \<open>\<open>New\<close> always returns a nil error, so the model returns the Logger alone.
  The composite literal sets \<open>Module\<close>, \<open>worker\<close> and \<open>WriteLock\<close>; \<open>posOverride\<close>
  keeps Go's zero value.\<close>

definition New :: "argument list \<Rightarrow> world \<Rightarrow> failure + (Logger \<times> world)" where
  "New args \<sigma> =
     (case New_args args (''DEFAULT'', 1, os_Stderr, InfoLevel) of
        Inl e \<Rightarrow> Inl e
      | Inr (module, color, wr, lvl) \<Rightarrow>
          (case new_Mutex \<sigma> of (lck, \<sigma>1) \<Rightarrow>
            (let newWorker = Worker_SetLogLevel (NewWorker [] 0 color wr lck \<sigma>1) lvl
             in Inr (\<lparr>Logger_Module = module, worker = newWorker, posOverride = 0,
                      WriteLock = lck\<rparr>, \<sigma>1))))"

fun Update_args ::
  "argument list \<Rightarrow> int \<times> Writer \<times> LogLevel \<Rightarrow> failure + (int \<times> Writer \<times> LogLevel)" where
  "Update_args [] acc = Inr acc"
| "Update_args (arg # args) (color, wr, lvl) =
     (case arg of
        ArgInt t \<Rightarrow> Update_args args (t, wr, lvl)
      | ArgWriter t \<Rightarrow> Update_args args (color, t, lvl)
      | ArgLogLevel t \<Rightarrow> Update_args args (color, wr, t)
      | _ \<Rightarrow> Inl (Panic ''logger: Unknown argument''))"

definition Logger_Update :: "Logger \<Rightarrow> argument list \<Rightarrow> world \<Rightarrow> failure + (Logger \<times> world)" where
  "Logger_Update l args \<sigma> =
     (case Update_args args (1, os_Stderr, InfoLevel) of
        Inl e \<Rightarrow> Inl e
      | Inr (color, wr, lvl) \<Rightarrow>
          (case new_Mutex \<sigma> of (lck, \<sigma>1) \<Rightarrow>
            (let newWorker = Worker_SetLogLevel (NewWorker [] 0 color wr lck \<sigma>1) lvl
             in Inr (l\<lparr>worker := newWorker\<rparr>, \<sigma>1))))"

definition Logger_SetFormat :: "Logger \<Rightarrow> string \<Rightarrow> world \<Rightarrow> Logger option" where
  "Logger_SetFormat l fmt \<sigma> =
     (case Worker_SetFormat (worker l) fmt \<sigma> of
        None \<Rightarrow> None
      | Some w \<Rightarrow> Some (l\<lparr>worker := w\<rparr>))"

definition Logger_SetLogLevel :: "Logger \<Rightarrow> LogLevel \<Rightarrow> Logger" where
  "Logger_SetLogLevel l lvl = l\<lparr>worker := (worker l)\<lparr>level := lvl\<rparr>\<rparr>"

definition GetPosOverride :: "Logger \<Rightarrow> int" where
  "GetPosOverride l = posOverride l"

definition SetPosOverride :: "Logger \<Rightarrow> int \<Rightarrow> Logger" where
  "SetPosOverride l pos = l\<lparr>posOverride := pos\<rparr>"

text \<open>\<open>path.Base\<close>: the last element of a slash-separated path.\<close>

definition path_Base :: "string \<Rightarrow> string" where
  "path_Base p =
     (if p = [] then ''.''
      else (let p1 = rev (dropWhile (\<lambda>c. c = CHR ''/'') (rev p));
                i = LastIndex p1 ''/'';
                p2 = (if i \<ge> 0 then drop (nat i + 1) p1 else p1)
            in if p2 = [] then ''/'' else p2))"

text \<open>\<open>log_internal\<close>.  The result is what \<open>Worker.Log\<close> returned, with the Logger
  and the process state after the call.\<close>

definition log_internal ::
  "environment \<Rightarrow> Logger \<Rightarrow> LogLevel \<Rightarrow> string \<Rightarrow> string \<Rightarrow> int \<Rightarrow> world
     \<Rightarrow> failure + ((int \<times> string option) \<times> Logger \<times> world)" where
  "log_internal env l lvl category message pos \<sigma> =
     (case (if posOverride l \<noteq> -1 then (posOverride l, l\<lparr>posOverride := -1\<rparr>) else (pos, l)) of
        (pos1, l1) \<Rightarrow>
     (case Caller env pos1 of (filename, line) \<Rightarrow>
     (let filename1 = path_Base filename;
          \<sigma>1 = \<sigma>\<lparr>logNo := logNo \<sigma> + 1\<rparr>;
          info = \<lparr>Id = logNo \<sigma>1,
                  Time = Now_Format env (timeFormat (worker l1)),
                  Module = Logger_Module l1,
                  Level = lvl,
                  Line = line,
                  Filename = filename1,
                  Message = message,
                  Category = category\<rparr>
      in case Worker_Log env (worker l1) lvl 2 info \<sigma>1 of
           Inl e \<Rightarrow> Inl e
         | Inr (r, \<sigma>2) \<Rightarrow> Inr (r, l1, \<sigma>2))))"

text \<open>The plain operations per severity; each passes the fixed default depth \<open>2\<close>.\<close>

definition Logger_Log ::
  "environment \<Rightarrow> Logger \<Rightarrow> LogLevel \<Rightarrow> string \<Rightarrow> string \<Rightarrow> world
     \<Rightarrow> failure + ((int \<times> string option) \<times> Logger \<times> world)" where
  "Logger_Log env l lvl category message \<sigma> = log_internal env l lvl category message 2 \<sigma>"

definition Logger_Info ::
  "environment \<Rightarrow> Logger \<Rightarrow> string \<Rightarrow> string \<Rightarrow> world
     \<Rightarrow> failure + ((int \<times> string option) \<times> Logger \<times> world)" where
  "Logger_Info env l category message \<sigma> = log_internal env l InfoLevel category message 2 \<sigma>"

section \<open>Inputs used to instantiate the theorems\<close>

text \<open>A record with a chosen severity and empty text fields.\<close>

definition info_at :: "LogLevel \<Rightarrow> Info" where
  "info_at lvl =
     \<lparr>Id = 1, Time = [], Module = [], Level = lvl, Line = 0, Filename = [],
      Message = [], Category = []\<rparr>"

text \<open>An environment, a Worker at a chosen minimum level writing to standard error
  without colour, a process state in which that Worker's mutex exists and is
  free, and a record.\<close>

definition env_example :: environment where
  "env_example =
     \<lparr>Caller = (\<lambda>depth. if depth = 0 then (''/go/src/logger/logger.go'', 343)
                       else if depth = 2 then (''/app/main.go'', 10)
                       else if depth = 3 then (''/app/util.go'', 77)
                       else ([], 0)),
      Now_Format = (\<lambda>layout. ''2024-01-01 00:00:00''),
      Write_error = (\<lambda>wr. None)\<rparr>"

definition worker_example :: "LogLevel \<Rightarrow> Worker" where
  "worker_example L =
     \<lparr>Minion = \<lparr>out = os_Stderr, log_prefix = [], flag = 0\<rparr>, Color = 0,
      format = initial_defFmt, timeFormat = initial_defTimeFmt, level = L, lock = 0\<rparr>"

definition world_example :: world where
  "world_example = initial_world\<lparr>mutexes := [False]\<rparr>"

definition info_example :: "LogLevel \<Rightarrow> Info" where
  "info_example lvl =
     \<lparr>Id = 1, Time = ''2024-01-01 00:00:00'', Module = ''DEFAULT'', Level = lvl, Line = 42,
      Filename = ''main.go'', Message = ''hello'', Category = ''c''\<rparr>"

text \<open>The values of one dynamic type among the arguments of \<open>New\<close>, in the order
  given, and the choice of the last (or of the first) of them with a default;
  these state what "the last occurrence" and "the first occurrence" of a type
  mean.\<close>

fun strings_of :: "argument list \<Rightarrow> string list" where
  "strings_of [] = []"
| "strings_of (ArgString t # args) = t # strings_of args"
| "strings_of (_ # args) = strings_of args"

fun ints_of :: "argument list \<Rightarrow> int list" where
  "ints_of [] = []"
| "ints_of (ArgInt t # args) = t # ints_of args"
| "ints_of (_ # args) = ints_of args"

fun writers_of :: "argument list \<Rightarrow> Writer list" where
  "writers_of [] = []"
| "writers_of (ArgWriter t # args) = t # writers_of args"
| "writers_of (_ # args) = writers_of args"

fun levels_of :: "argument list \<Rightarrow> LogLevel list" where
  "levels_of [] = []"
| "levels_of (ArgLogLevel t # args) = t # levels_of args"
| "levels_of (_ # args) = levels_of args"

definition last_or :: "'a \<Rightarrow> 'a list \<Rightarrow> 'a" where
  "last_or d xs = (if xs = [] then d else last xs)"

definition first_or :: "'a \<Rightarrow> 'a list \<Rightarrow> 'a" where
  "first_or d xs = (case xs of [] \<Rightarrow> d | x # _ \<Rightarrow> x)"

text \<open>The Logger that \<open>New()\<close> returns in the initial state of the process.\<close>

definition logger_example :: Logger where
  "logger_example =
     \<lparr>Logger_Module = ''DEFAULT'',
      worker = \<lparr>Minion = \<lparr>out = os_Stderr, log_prefix = [], flag = 0\<rparr>, Color = 1,
                format = initial_defFmt, timeFormat = initial_defTimeFmt,
                level = InfoLevel, lock = 0\<rparr>,
      posOverride = 0, WriteLock = 0\<rparr>"

text \<open>The state of the process after \<open>SetDefaultFormat("%{time:2006} %{message}")\<close>.\<close>

definition world_custom_default :: world where
  "world_custom_default = initial_world\<lparr>defFmt := ''%[2]s %[7]s'', defTimeFmt := ''2006''\<rparr>"

text \<open>A record whose message contains the marker twice.\<close>

definition info_marker :: Info where
  "info_marker =
     \<lparr>Id = 1, Time = ''2024-01-01 00:00:00'', Module = ''DEFAULT'', Level = WarningLevel,
      Line = 42, Filename = ''main.go'', Message = ''a%!(EXTRA b%!(EXTRA c'', Category = ''c''\<rparr>"

(*DEFS-END*)

section \<open>Severity names (claim C10)\<close>

lemma phfs_lvl: "phfs ''%{lvl}'' = ''%.3[6]s''"
  by (simp add: phfs_def phfs_table_def)

lemma Output_lvl_verb:
  assumes "logLevelString r = Inr name"
    and "list_all (\<lambda>c. of_char c < (128::int)) name"
    and "LastIndex (take 3 name) extraMarker = -1"
  shows "Output r ''%.3[6]s'' = Inr (take 3 name)"
  using assms
  by (simp add: Output_def Sprintf_def doVerb_def argNumber_def parseArgNumber_def
        is_digit_def digit_val_def printArg_def truncateString_def extraArgs_def)

text \<open>
  Claim C10.  For a record whose \<open>Level\<close> lies in \<open>1..6\<close>, \<open>logLevelString\<close> returns
  the name at position \<open>Level - 1\<close> of CRITICAL, ERROR, WARNING, NOTICE, INFO,
  DEBUG, and the verb of the \<open>lvl\<close> placeholder renders its first three
  characters CRI, ERR, WAR, NOT, INF, DEB.  For a \<open>Level\<close> outside \<open>1..6\<close> the
  array index is out of range: \<open>logLevelString\<close> panics, and so does \<open>Output\<close>
  with any format.
\<close>

theorem logLevelString_defined_levels:
  "(1 \<le> Level r \<and> Level r \<le> 6 \<longrightarrow>
      logLevelString r =
        Inr ([''CRITICAL'', ''ERROR'', ''WARNING'', ''NOTICE'', ''INFO'', ''DEBUG'']
               ! nat (Level r - 1)) \<and>
      Output r (phfs ''%{lvl}'') =
        Inr ([''CRI'', ''ERR'', ''WAR'', ''NOT'', ''INF'', ''DEB''] ! nat (Level r - 1)))
   \<and> (Level r < 1 \<or> 6 < Level r \<longrightarrow>
      logLevelString r = Inl (Panic ''runtime error: index out of range'') \<and>
      Output r fmt = Inl (Panic ''runtime error: index out of range''))"
proof (intro conjI impI)
  assume range: "1 \<le> Level r \<and> Level r \<le> 6"
  then consider "Level r = 1" | "Level r = 2" | "Level r = 3" | "Level r = 4"
    | "Level r = 5" | "Level r = 6"
    by linarith
  then show "logLevelString r =
        Inr ([''CRITICAL'', ''ERROR'', ''WARNING'', ''NOTICE'', ''INFO'', ''DEBUG'']
               ! nat (Level r - 1))"
    by cases (simp_all add: logLevelString_def logLevels_def)
  then have name: "logLevelString r = Inr (logLevels ! nat (Level r - 1))"
    by (simp add: logLevels_def)
  from range consider "Level r = 1" | "Level r = 2" | "Level r = 3" | "Level r = 4"
    | "Level r = 5" | "Level r = 6"
    by linarith
  then show "Output r (phfs ''%{lvl}'') =
        Inr ([''CRI'', ''ERR'', ''WAR'', ''NOT'', ''INF'', ''DEB''] ! nat (Level r - 1))"
    by cases
      (simp_all add: phfs_lvl Output_lvl_verb [OF name] logLevels_def extraMarker_def)
next
  assume "Level r < 1 \<or> 6 < Level r"
  then show bad: "logLevelString r = Inl (Panic ''runtime error: index out of range'')"
    by (auto simp: logLevelString_def logLevels_def)
  then show "Output r fmt = Inl (Panic ''runtime error: index out of range'')"
    by (simp add: Output_def)
qed

theorem logLevelString_defined_levels_witness:
  "logLevelString (info_at WarningLevel) = Inr ''WARNING''
   \<and> Output (info_at WarningLevel) (phfs ''%{lvl}'') = Inr ''WAR''
   \<and> logLevelString (info_at 0) = Inl (Panic ''runtime error: index out of range'')
   \<and> logLevelString (info_at 7) = Inl (Panic ''runtime error: index out of range'')"
  using logLevelString_defined_levels [of "info_at WarningLevel"]
    logLevelString_defined_levels [of "info_at 0"]
    logLevelString_defined_levels [of "info_at 7"]
  by (simp add: WarningLevel_def info_at_def)

section \<open>The default template (claim C4)\<close>

text \<open>
  Claim C4.  The built-in default template is the initial value of \<open>defFmt\<close>, already
  in positional form, and it is the format a new Worker gets.  Rendering the
  record with id 1, time "2024-01-01 00:00:00", file "main.go", line 42, severity
  Warning and message "hello" with it gives "#1 2024-01-01 00:00:00 main.go:42",
  the arrow between two spaces, and "WAR hello", whatever the module and the
  category are.
\<close>

theorem default_template_golden_output:
  "defFmt initial_world = initial_defFmt
   \<and> format (NewWorker pfx flg color wr lck initial_world) = initial_defFmt
   \<and> Output \<lparr>Id = 1, Time = ''2024-01-01 00:00:00'', Module = m, Level = WarningLevel,
              Line = 42, Filename = ''main.go'', Message = ''hello'', Category = c\<rparr>
            initial_defFmt
       = Inr (''#1 2024-01-01 00:00:00 main.go:42 '' @ arrow @ '' WAR hello'')"
proof -
  have "Output \<lparr>Id = 1, Time = ''2024-01-01 00:00:00'', Module = m, Level = WarningLevel,
              Line = 42, Filename = ''main.go'', Message = ''hello'', Category = c\<rparr>
            initial_defFmt
       = Inr (''#1 2024-01-01 00:00:00 main.go:42 '' @ arrow @ '' WAR hello'')"
    by code_simp
  then show ?thesis
    by (simp add: initial_world_def NewWorker_def)
qed

section \<open>The severity gate (claim C1)\<close>

lemma mutex_Lock_Unlock:
  assumes "m < length (mutexes \<sigma>)" and "\<not> mutexes \<sigma> ! m"
  shows "mutex_Lock m \<sigma> = Inr (\<sigma>\<lparr>mutexes := (mutexes \<sigma>)[m := True]\<rparr>)"
    and "mutex_Unlock m (\<sigma>\<lparr>mutexes := (mutexes \<sigma>)[m := True], written := ws\<rparr>)
           = \<sigma>\<lparr>written := ws\<rparr>"
proof -
  show "mutex_Lock m \<sigma> = Inr (\<sigma>\<lparr>mutexes := (mutexes \<sigma>)[m := True]\<rparr>)"
    using assms by (simp add: mutex_Lock_def)
  have "(mutexes \<sigma>)[m := False] = mutexes \<sigma>"
    using assms by (metis list_update_id)
  then show "mutex_Unlock m (\<sigma>\<lparr>mutexes := (mutexes \<sigma>)[m := True], written := ws\<rparr>)
           = \<sigma>\<lparr>written := ws\<rparr>"
    by (simp add: mutex_Unlock_def)
qed

lemma Worker_Log_rejects:
  "level w < S \<Longrightarrow> Worker_Log env w S calldepth info \<sigma> = Inr ((0, None), \<sigma>)"
  by (simp add: Worker_Log_def)

lemma Worker_Log_admits:
  assumes "S \<le> level w" and "lock w < length (mutexes \<sigma>)" and "\<not> mutexes \<sigma> ! lock w"
    and "flag (Minion w) = 0" and "Output info (format w) = Inr rendered"
  shows "Worker_Log env w S calldepth info \<sigma> =
    (let body = (if Color w \<noteq> 0 then colors S @ rendered @ color_reset else rendered);
         line = log_prefix (Minion w) @ body
                  @ (if body = [] \<or> last body \<noteq> CHR 0x0A then [CHR 0x0A] else [])
     in Inr ((int (length body), Write_error env (out (Minion w))),
             \<sigma>\<lparr>written := written \<sigma> @ [(out (Minion w), line)]\<rparr>))"
  using assms
  by (simp add: Worker_Log_def mutex_Lock_Unlock log_Output_def Let_def)

lemma Worker_Log_written:
  assumes "Worker_Log env w S calldepth info \<sigma> = Inr (res, \<sigma>')"
  shows "(length (written \<sigma>') = Suc (length (written \<sigma>))) = (S \<le> level w)"
    and "(written \<sigma>' = written \<sigma>) = (level w < S)"
  using assms
  by (auto simp: Worker_Log_def mutex_Lock_def mutex_Unlock_def log_Output_def Let_def
      split: if_splits sum.splits prod.splits)

lemma Output_info_example_Warning:
  "Output (info_example WarningLevel) initial_defFmt
     = Inr (''#1 2024-01-01 00:00:00 main.go:42 '' @ arrow @ '' WAR hello'')"
  by code_simp

text \<open>
  Claim C1.  \<open>Worker.Log\<close> called with severity \<open>S\<close> on a Worker whose minimum level
  is \<open>L\<close>:
  \<^item> when \<open>L < S\<close> the call returns byte count 0 and no error and the state of the
    process (sinks, mutexes, counters) is unchanged;
  \<^item> when \<open>L \<ge> S\<close>, the Worker's mutex is free, its \<open>log.Logger\<close> has flag 0 and the
    record renders to \<open>rendered\<close>, the call performs exactly one \<open>Write\<close> on the
    Worker's sink (the text, wrapped in the colour escapes when colour is on, and
    a newline), returns the length of the text and the sink's error, and leaves
    the mutex free;
  \<^item> whenever the call returns, a \<open>Write\<close> was performed if and only if \<open>L \<ge> S\<close>;
  \<^item> a Worker at Debug passes the gate for every severity up to 6, and a Worker
    at Critical passes it for Critical only.
\<close>

theorem Worker_Log_severity_gate:
  "(level w < S \<longrightarrow> Worker_Log env w S calldepth info \<sigma> = Inr ((0, None), \<sigma>))
   \<and> (S \<le> level w \<and> lock w < length (mutexes \<sigma>) \<and> \<not> mutexes \<sigma> ! lock w
        \<and> flag (Minion w) = 0 \<and> Output info (format w) = Inr rendered \<longrightarrow>
      Worker_Log env w S calldepth info \<sigma> =
        (let body = (if Color w \<noteq> 0 then colors S @ rendered @ color_reset else rendered);
             line = log_prefix (Minion w) @ body
                      @ (if body = [] \<or> last body \<noteq> CHR 0x0A then [CHR 0x0A] else [])
         in Inr ((int (length body), Write_error env (out (Minion w))),
                 \<sigma>\<lparr>written := written \<sigma> @ [(out (Minion w), line)]\<rparr>)))
   \<and> (Worker_Log env w S calldepth info \<sigma> = Inr (res, \<sigma>') \<longrightarrow>
        (length (written \<sigma>') = Suc (length (written \<sigma>))) = (S \<le> level w)
        \<and> (written \<sigma>' = written \<sigma>) = (level w < S))
   \<and> (level w = DebugLevel \<and> S \<le> 6 \<longrightarrow> \<not> level w < S)
   \<and> (level w = CriticalLevel \<and> 1 \<le> S \<longrightarrow> (\<not> level w < S) = (S = CriticalLevel))"
proof (intro conjI impI)
  assume "level w < S"
  then show "Worker_Log env w S calldepth info \<sigma> = Inr ((0, None), \<sigma>)"
    by (rule Worker_Log_rejects)
next
  assume "S \<le> level w \<and> lock w < length (mutexes \<sigma>) \<and> \<not> mutexes \<sigma> ! lock w
        \<and> flag (Minion w) = 0 \<and> Output info (format w) = Inr rendered"
  then show "Worker_Log env w S calldepth info \<sigma> =
        (let body = (if Color w \<noteq> 0 then colors S @ rendered @ color_reset else rendered);
             line = log_prefix (Minion w) @ body
                      @ (if body = [] \<or> last body \<noteq> CHR 0x0A then [CHR 0x0A] else [])
         in Inr ((int (length body), Write_error env (out (Minion w))),
                 \<sigma>\<lparr>written := written \<sigma> @ [(out (Minion w), line)]\<rparr>))"
    by (intro Worker_Log_admits) simp_all
next
  assume ret: "Worker_Log env w S calldepth info \<sigma> = Inr (res, \<sigma>')"
  show "(length (written \<sigma>') = Suc (length (written \<sigma>))) = (S \<le> level w)"
    by (rule Worker_Log_written(1) [OF ret])
  show "(written \<sigma>' = written \<sigma>) = (level w < S)"
    by (rule Worker_Log_written(2) [OF ret])
next
  assume "level w = DebugLevel \<and> S \<le> 6"
  then show "\<not> level w < S" by (simp add: DebugLevel_def)
next
  assume "level w = CriticalLevel \<and> 1 \<le> S"
  then show "(\<not> level w < S) = (S = CriticalLevel)" by (auto simp: CriticalLevel_def)
qed

theorem Worker_Log_severity_gate_witness:
  "Worker_Log env_example (worker_example InfoLevel) DebugLevel 2 (info_example DebugLevel)
       world_example
     = Inr ((0, None), world_example)
   \<and> Worker_Log env_example (worker_example InfoLevel) WarningLevel 2
       (info_example WarningLevel) world_example
     = Inr ((47, None),
            world_example\<lparr>written :=
              [(os_Stderr, ''#1 2024-01-01 00:00:00 main.go:42 '' @ arrow @ '' WAR hello''
                             @ [CHR 0x0A])]\<rparr>)
   \<and> \<not> level (worker_example DebugLevel) < NoticeLevel
   \<and> level (worker_example CriticalLevel) < ErrorLevel"
proof (intro conjI)
  show "Worker_Log env_example (worker_example InfoLevel) DebugLevel 2
          (info_example DebugLevel) world_example
        = Inr ((0, None), world_example)"
    using Worker_Log_severity_gate [where w = "worker_example InfoLevel" and S = DebugLevel
        and env = env_example and calldepth = 2 and info = "info_example DebugLevel"
        and \<sigma> = world_example]
    by (simp add: worker_example_def InfoLevel_def DebugLevel_def)
next
  have pre: "WarningLevel \<le> level (worker_example InfoLevel)
      \<and> lock (worker_example InfoLevel) < length (mutexes world_example)
      \<and> \<not> mutexes world_example ! lock (worker_example InfoLevel)
      \<and> flag (Minion (worker_example InfoLevel)) = 0
      \<and> Output (info_example WarningLevel) (format (worker_example InfoLevel))
            = Inr (''#1 2024-01-01 00:00:00 main.go:42 '' @ arrow @ '' WAR hello'')"
    using Output_info_example_Warning
    by (simp add: worker_example_def world_example_def initial_world_def InfoLevel_def
        WarningLevel_def)
  have "Color (worker_example InfoLevel) = 0"
    and "log_prefix (Minion (worker_example InfoLevel)) = []"
    and "out (Minion (worker_example InfoLevel)) = os_Stderr"
    and "Write_error env_example os_Stderr = None"
    and "written world_example = []"
    by (simp_all add: worker_example_def env_example_def world_example_def initial_world_def)
  with pre
    Worker_Log_severity_gate [where w = "worker_example InfoLevel" and S = WarningLevel
      and env = env_example and calldepth = 2 and info = "info_example WarningLevel"
      and \<sigma> = world_example
      and rendered = "''#1 2024-01-01 00:00:00 main.go:42 '' @ arrow @ '' WAR hello''"]
  show "Worker_Log env_example (worker_example InfoLevel) WarningLevel 2
          (info_example WarningLevel) world_example
        = Inr ((47, None),
            world_example\<lparr>written :=
              [(os_Stderr, ''#1 2024-01-01 00:00:00 main.go:42 '' @ arrow @ '' WAR hello''
                             @ [CHR 0x0A])]\<rparr>)"
    by (simp add: arrow_def)
next
  show "\<not> level (worker_example DebugLevel) < NoticeLevel"
    using Worker_Log_severity_gate [where w = "worker_example DebugLevel" and S = NoticeLevel]
    by (simp add: worker_example_def NoticeLevel_def)
next
  show "level (worker_example CriticalLevel) < ErrorLevel"
    using Worker_Log_severity_gate [where w = "worker_example CriticalLevel" and S = ErrorLevel]
    by (simp add: worker_example_def ErrorLevel_def CriticalLevel_def)
qed

section \<open>Construction (claim C5)\<close>

lemma last_or_Cons: "last_or d (x # xs) = last_or x xs"
  by (simp add: last_or_def)

lemma New_args_last:
  "New_args args (m, c, w, l) =
     (if ArgOther \<in> set args then Inl (Panic ''logger: Unknown argument'')
      else Inr (last_or m (strings_of args), last_or c (ints_of args),
                last_or w (writers_of args), last_or l (levels_of args)))"
proof (induction args arbitrary: m c w l)
  case Nil
  show ?case by (simp add: last_or_def)
next
  case (Cons a args)
  show ?case
    by (cases a) (simp_all add: Cons.IH last_or_Cons)
qed

lemma New_result:
  "New args \<sigma> =
     (if ArgOther \<in> set args then Inl (Panic ''logger: Unknown argument'')
      else Inr (\<lparr>Logger_Module = last_or ''DEFAULT'' (strings_of args),
                 worker =
                   \<lparr>Minion = \<lparr>out = last_or os_Stderr (writers_of args), log_prefix = [],
                              flag = 0\<rparr>,
                    Color = last_or 1 (ints_of args),
                    format = defFmt \<sigma>, timeFormat = defTimeFmt \<sigma>,
                    level = last_or InfoLevel (levels_of args),
                    lock = length (mutexes \<sigma>)\<rparr>,
                 posOverride = 0,
                 WriteLock = length (mutexes \<sigma>)\<rparr>,
                \<sigma>\<lparr>mutexes := mutexes \<sigma> @ [False]\<rparr>))"
  by (simp add: New_def New_args_last new_Mutex_def NewWorker_def Worker_SetLogLevel_def)

text \<open>
  Claim C5, amended.  \<open>New\<close> resolves its arguments by dynamic type, and for each
  accepted type the LAST argument of that type wins (every later one overwrites
  the earlier): a string sets the module, an int the colour flag, a writer the
  sink, a LogLevel the minimum severity.  A type that does not occur keeps its
  default (module "DEFAULT", colour 1, sink standard error, severity Info).  If
  any argument has another type, \<open>New\<close> panics.  The new Worker takes the current
  default format and time layout and a fresh mutex, which is also the Logger's
  \<open>WriteLock\<close>.
\<close>

theorem New_resolves_last_occurrence:
  "New args \<sigma> =
     (if ArgOther \<in> set args then Inl (Panic ''logger: Unknown argument'')
      else Inr (\<lparr>Logger_Module = last_or ''DEFAULT'' (strings_of args),
                 worker =
                   \<lparr>Minion = \<lparr>out = last_or os_Stderr (writers_of args), log_prefix = [],
                              flag = 0\<rparr>,
                    Color = last_or 1 (ints_of args),
                    format = defFmt \<sigma>, timeFormat = defTimeFmt \<sigma>,
                    level = last_or InfoLevel (levels_of args),
                    lock = length (mutexes \<sigma>)\<rparr>,
                 posOverride = 0,
                 WriteLock = length (mutexes \<sigma>)\<rparr>,
                \<sigma>\<lparr>mutexes := mutexes \<sigma> @ [False]\<rparr>))"
  by (rule New_result)

text \<open>The claim as stated says the first occurrence wins.  With two strings the
  module is the second one.\<close>

theorem New_first_occurrence_counterexample:
  "map_sum id (Logger_Module \<circ> fst) (New [ArgString ''first'', ArgString ''second''] initial_world)
     = Inr ''second''
   \<and> first_or ''DEFAULT'' (strings_of [ArgString ''first'', ArgString ''second'']) = ''first''
   \<and> map_sum id (Logger_Module \<circ> fst) (New [ArgString ''first'', ArgString ''second''] initial_world)
     \<noteq> Inr (first_or ''DEFAULT'' (strings_of [ArgString ''first'', ArgString ''second'']))"
  by (simp add: New_def new_Mutex_def NewWorker_def Worker_SetLogLevel_def first_or_def)

section \<open>The lock shared by a Logger and its Worker (claim C9)\<close>

lemma New_initial: "New [] initial_world = Inr (logger_example, world_example)"
  by (simp add: New_def new_Mutex_def NewWorker_def Worker_SetLogLevel_def logger_example_def
      world_example_def initial_world_def)

text \<open>
  Claim C9 fails on \<open>Update\<close>.  \<open>New\<close> stores one fresh mutex both in the Worker and
  in \<open>WriteLock\<close>.  \<open>Update\<close> allocates another fresh mutex for the Worker it
  installs and leaves \<open>WriteLock\<close> as it was: for a Logger whose \<open>WriteLock\<close> is an
  allocated mutex, after \<open>Update\<close> the field \<open>WriteLock\<close> and the Worker's lock are
  different mutexes.
\<close>

theorem Update_leaves_WriteLock_stale:
  "(New args \<sigma> = Inr (l, st) \<longrightarrow>
      WriteLock l = lock (worker l) \<and> WriteLock l < length (mutexes st))
   \<and> (WriteLock l < length (mutexes st') \<and> Logger_Update l args' st' = Inr (l', st'') \<longrightarrow>
      WriteLock l' = WriteLock l \<and> lock (worker l') = length (mutexes st')
      \<and> WriteLock l' \<noteq> lock (worker l'))"
proof -
  have fresh: "WriteLock l = lock (worker l) \<and> WriteLock l < length (mutexes st)"
    if "New args \<sigma> = Inr (l, st)"
    using that by (auto simp: New_result split: if_splits)
  have stale: "WriteLock l' = WriteLock l \<and> lock (worker l') = length (mutexes st')
      \<and> WriteLock l' \<noteq> lock (worker l')"
    if alloc: "WriteLock l < length (mutexes st')"
      and upd: "Logger_Update l args' st' = Inr (l', st'')"
  proof -
    from upd obtain c w lv where "l' = l\<lparr>worker := Worker_SetLogLevel
        (NewWorker [] 0 c w (length (mutexes st')) (st'\<lparr>mutexes := mutexes st' @ [False]\<rparr>)) lv\<rparr>"
      by (auto simp: Logger_Update_def new_Mutex_def split: sum.splits prod.splits)
    then have "WriteLock l' = WriteLock l" and "lock (worker l') = length (mutexes st')"
      by (simp_all add: Worker_SetLogLevel_def NewWorker_def)
    with alloc show ?thesis by simp
  qed
  from fresh stale show ?thesis by blast
qed

theorem Update_leaves_WriteLock_stale_witness:
  "New [] initial_world = Inr (logger_example, world_example)
   \<and> WriteLock logger_example = lock (worker logger_example)
   \<and> map_sum id (WriteLock \<circ> fst) (Logger_Update logger_example [] world_example) = Inr 0
   \<and> map_sum id (lock \<circ> worker \<circ> fst) (Logger_Update logger_example [] world_example) = Inr 1"
proof -
  have upd: "Logger_Update logger_example [] world_example
      = Inr (logger_example\<lparr>worker := (worker logger_example)\<lparr>lock := 1\<rparr>\<rparr>,
             world_example\<lparr>mutexes := [False, False]\<rparr>)"
    by (simp add: Logger_Update_def new_Mutex_def NewWorker_def Worker_SetLogLevel_def
        logger_example_def world_example_def initial_world_def)
  have "WriteLock logger_example < length (mutexes world_example)"
    by (simp add: logger_example_def world_example_def initial_world_def)
  with upd New_initial
    Update_leaves_WriteLock_stale [where args = "[]" and \<sigma> = initial_world
      and l = logger_example and st = world_example and st' = world_example and args' = "[]"
      and l' = "logger_example\<lparr>worker := (worker logger_example)\<lparr>lock := 1\<rparr>\<rparr>"
      and st'' = "world_example\<lparr>mutexes := [False, False]\<rparr>"]
  show ?thesis
    by (simp add: logger_example_def world_example_def initial_world_def)
qed

section \<open>The position override (claim C6)\<close>

lemma log_internal_override:
  "posOverride l \<noteq> -1 \<Longrightarrow>
     log_internal env l lvl category message pos st
       = log_internal env (SetPosOverride l (-1)) lvl category message (posOverride l) st"
  by (simp add: log_internal_def SetPosOverride_def)

lemma log_internal_no_override:
  "posOverride l = -1 \<Longrightarrow>
     log_internal env l lvl category message pos st = Inr (r, l', st') \<Longrightarrow> l' = l"
  by (auto simp: log_internal_def Let_def split: sum.splits prod.splits)

lemma log_internal_resets:
  "log_internal env l lvl category message pos st = Inr (r, l', st') \<Longrightarrow> posOverride l' = -1"
  by (auto simp: log_internal_def Let_def split: sum.splits prod.splits if_splits)

lemma log_internal_example_depth0:
  "log_internal env_example (SetPosOverride logger_example (-1)) InfoLevel ''cat'' ''msg'' 0
       world_example
     = Inr ((57, None), SetPosOverride logger_example (-1),
            world_example\<lparr>logNo := 1, written :=
              [(os_Stderr, [CHR 0x1B] @ ''[37m#1 2024-01-01 00:00:00 logger.go:343 '' @ arrow
                             @ '' INF msg'' @ [CHR 0x1B] @ ''[0m'' @ [CHR 0x0A])]\<rparr>)"
  by code_simp

text \<open>
  Claim C6 fails for a fresh Logger.  \<open>New\<close> does not set \<open>posOverride\<close>, so the
  field holds Go's zero value 0, not the "no override" value \<open>-1\<close>.  \<open>log_internal\<close>
  takes any value other than \<open>-1\<close> for an override: the first log call of a fresh
  Logger ignores the depth it is given and behaves as a call at depth 0 (the
  frame of \<open>log_internal\<close> itself) by a Logger without override.
\<close>

theorem New_posOverride_is_zero:
  "(New args \<sigma> = Inr (l, st) \<longrightarrow> posOverride l = 0 \<and> GetPosOverride l \<noteq> -1)
   \<and> (posOverride l = 0 \<longrightarrow>
        log_internal env l lvl category message pos st'
          = log_internal env (SetPosOverride l (-1)) lvl category message 0 st')"
proof -
  have "posOverride l = 0 \<and> GetPosOverride l \<noteq> -1" if "New args \<sigma> = Inr (l, st)"
    using that by (auto simp: New_result GetPosOverride_def split: if_splits)
  moreover have "log_internal env l lvl category message pos st'
          = log_internal env (SetPosOverride l (-1)) lvl category message 0 st'"
    if "posOverride l = 0"
    using that log_internal_override [of l env lvl category message pos st'] by simp
  ultimately show ?thesis by blast
qed

theorem New_posOverride_is_zero_witness:
  "New [] initial_world = Inr (logger_example, world_example)
   \<and> posOverride logger_example = 0
   \<and> Logger_Info env_example logger_example ''cat'' ''msg'' world_example
     = Inr ((57, None), SetPosOverride logger_example (-1),
            world_example\<lparr>logNo := 1, written :=
              [(os_Stderr, [CHR 0x1B] @ ''[37m#1 2024-01-01 00:00:00 logger.go:343 '' @ arrow
                             @ '' INF msg'' @ [CHR 0x1B] @ ''[0m'' @ [CHR 0x0A])]\<rparr>)
   \<and> Caller env_example 2 = (''/app/main.go'', 10)"
proof -
  have zero: "posOverride logger_example = 0"
    by (simp add: logger_example_def)
  with New_initial log_internal_example_depth0
    New_posOverride_is_zero [where args = "[]" and \<sigma> = initial_world and l = logger_example
      and st = world_example and env = env_example and lvl = InfoLevel and category = "''cat''"
      and message = "''msg''" and pos = 2 and st' = world_example]
  show ?thesis
    by (simp add: Logger_Info_def env_example_def)
qed

section \<open>What the compiler reads (claim C7)\<close>

lemma loop_body_timefmt:
  "\<exists>t2. loop_body m t' f i = (fst (loop_body m t f i), t2, snd (snd (loop_body m t f i)))"
  by (simp add: loop_body_def Let_def split: prod.splits)

lemma parseLoop_done: "parseLoop m t f (-1) = Some (m @ f, t)"
  by (subst parseLoop.simps) simp

lemma parseLoop_step:
  "i \<noteq> -1 \<Longrightarrow> loop_body m t f i = (m', t', f', i') \<Longrightarrow>
     parseLoop m t f i = parseLoop m' t' f' i'"
  by (subst parseLoop.simps) simp

lemma parseLoop_fst_indep_aux:
  assumes "parseLoop m t f i = Some y"
  shows "\<exists>z. parseLoop m t' f i = Some (fst y, z)"
  using assms
proof (induction arbitrary: t' rule: parseLoop.raw_induct [rotated, consumes 1, case_names step])
  case (step loop m t f i y)
  note IH = step(1) and body = step(2)
  show ?case
  proof (cases "i = -1")
    case True
    with body have "fst y = m @ f" by auto
    with True show ?thesis
      by (simp add: parseLoop_done)
  next
    case False
    obtain m1 t1 f1 i1 where b: "loop_body m t f i = (m1, t1, f1, i1)"
      by (cases "loop_body m t f i") auto
    with loop_body_timefmt [of m t' f i t] obtain t2 where b': "loop_body m t' f i = (m1, t2, f1, i1)"
      by auto
    from body False b have "loop m1 t1 f1 i1 = Some y" by simp
    from IH [OF this, of t2] obtain z where "parseLoop m1 t2 f1 i1 = Some (fst y, z)" ..
    with False b' show ?thesis
      by (simp add: parseLoop_step)
  qed
qed

lemma parseLoop_fst_indep:
  "map_option fst (parseLoop m t f i) = map_option fst (parseLoop m t' f i)"
proof (cases "parseLoop m t f i")
  case None
  show ?thesis
  proof (cases "parseLoop m t' f i")
    case None
    with \<open>parseLoop m t f i = None\<close> show ?thesis by simp
  next
    case (Some y)
    from parseLoop_fst_indep_aux [OF this, of t] \<open>parseLoop m t f i = None\<close> show ?thesis
      by simp
  qed
next
  case (Some y)
  from parseLoop_fst_indep_aux [OF this, of t'] Some show ?thesis
    by auto
qed

lemma parseFormat_short:
  "length fmt < 10 \<Longrightarrow> parseFormat \<sigma> fmt = Some (defFmt \<sigma>, defTimeFmt \<sigma>)"
  by (simp add: parseFormat_def)

lemma parseFormat_long:
  "10 \<le> length fmt \<Longrightarrow>
     parseFormat \<sigma> fmt = parseLoop [] (defTimeFmt \<sigma>) fmt (IndexRune fmt (CHR ''%''))"
  by (simp add: parseFormat_def)

text \<open>
  Claim C7, amended.  \<open>parseFormat\<close> is a function of its input string and of the
  two process-wide defaults that \<open>SetDefaultFormat\<close> overwrites, and of nothing
  else:
  \<^item> an input shorter than 10 bytes returns the current defaults;
  \<^item> two states with the same default template and default time layout give the
    same result for every input;
  \<^item> for an input of at least 10 bytes the result does not depend on the default
    template, and its positional template does not depend on the default time
    layout either: it is a function of the input alone.
\<close>

theorem parseFormat_reads_the_defaults:
  "(length fmt < 10 \<longrightarrow> parseFormat \<sigma> fmt = Some (defFmt \<sigma>, defTimeFmt \<sigma>))
   \<and> (defFmt \<sigma> = defFmt \<sigma>' \<and> defTimeFmt \<sigma> = defTimeFmt \<sigma>' \<longrightarrow>
        parseFormat \<sigma> fmt = parseFormat \<sigma>' fmt)
   \<and> (10 \<le> length fmt \<and> defTimeFmt \<sigma> = defTimeFmt \<sigma>' \<longrightarrow>
        parseFormat \<sigma> fmt = parseFormat \<sigma>' fmt)
   \<and> (10 \<le> length fmt \<longrightarrow>
        map_option fst (parseFormat \<sigma> fmt) = map_option fst (parseFormat \<sigma>' fmt))"
proof -
  have short: "parseFormat \<sigma> fmt = Some (defFmt \<sigma>, defTimeFmt \<sigma>)" if "length fmt < 10"
    using that by (rule parseFormat_short)
  have same: "parseFormat \<sigma> fmt = parseFormat \<sigma>' fmt"
    if "defFmt \<sigma> = defFmt \<sigma>' \<and> defTimeFmt \<sigma> = defTimeFmt \<sigma>'"
    using that by (simp add: parseFormat_def)
  have long: "parseFormat \<sigma> fmt = parseFormat \<sigma>' fmt"
    if "10 \<le> length fmt \<and> defTimeFmt \<sigma> = defTimeFmt \<sigma>'"
    using that by (simp add: parseFormat_long)
  have template: "map_option fst (parseFormat \<sigma> fmt) = map_option fst (parseFormat \<sigma>' fmt)"
    if "10 \<le> length fmt"
    using that parseLoop_fst_indep [of "[]" "defTimeFmt \<sigma>" fmt _ "defTimeFmt \<sigma>'"]
    by (simp add: parseFormat_long)
  from short same long template show ?thesis by blast
qed

lemma parseFormat_message_initial:
  "parseFormat initial_world ''%{message}'' = Some (''%[7]s'', ''2006-01-02 15:04:05'')"
  by code_simp

lemma parseFormat_message_custom:
  "parseFormat world_custom_default ''%{message}'' = Some (''%[7]s'', ''2006'')"
  by code_simp

theorem parseFormat_reads_the_defaults_witness:
  "parseFormat initial_world ''short'' = Some (initial_defFmt, initial_defTimeFmt)
   \<and> parseFormat (initial_world\<lparr>logNo := 5\<rparr>) ''%{message}''
       = parseFormat initial_world ''%{message}''
   \<and> parseFormat (initial_world\<lparr>defFmt := ''%[7]s''\<rparr>) ''%{message}''
       = parseFormat initial_world ''%{message}''
   \<and> map_option fst (parseFormat initial_world ''%{message}'') = Some ''%[7]s''
   \<and> map_option fst (parseFormat world_custom_default ''%{message}'') = Some ''%[7]s''"
  using parseFormat_reads_the_defaults [where fmt = "''short''" and \<sigma> = initial_world]
    parseFormat_reads_the_defaults [where fmt = "''%{message}''"
      and \<sigma> = "initial_world\<lparr>logNo := 5\<rparr>" and \<sigma>' = initial_world]
    parseFormat_reads_the_defaults [where fmt = "''%{message}''"
      and \<sigma> = "initial_world\<lparr>defFmt := ''%[7]s''\<rparr>" and \<sigma>' = initial_world]
    parseFormat_reads_the_defaults [where fmt = "''%{message}''"
      and \<sigma> = world_custom_default and \<sigma>' = initial_world]
    parseFormat_message_initial
  by (simp add: initial_world_def)

text \<open>The claim as stated makes the result a function of the input alone.  After
  \<open>SetDefaultFormat("%{time:2006} %{message}")\<close> the same input compiles to a
  different pair, for a short input and for a long one.\<close>

theorem parseFormat_purity_counterexample:
  "SetDefaultFormat ''%{time:2006} %{message}'' initial_world = Some world_custom_default
   \<and> parseFormat initial_world [] = Some (initial_defFmt, ''2006-01-02 15:04:05'')
   \<and> parseFormat world_custom_default [] = Some (''%[2]s %[7]s'', ''2006'')
   \<and> parseFormat initial_world [] \<noteq> parseFormat world_custom_default []
   \<and> parseFormat initial_world ''%{message}'' = Some (''%[7]s'', ''2006-01-02 15:04:05'')
   \<and> parseFormat world_custom_default ''%{message}'' = Some (''%[7]s'', ''2006'')
   \<and> parseFormat initial_world ''%{message}'' \<noteq> parseFormat world_custom_default ''%{message}''"
proof -
  have "parseFormat initial_world ''%{time:2006} %{message}'' = Some (''%[2]s %[7]s'', ''2006'')"
    by code_simp
  then have set: "SetDefaultFormat ''%{time:2006} %{message}'' initial_world
      = Some world_custom_default"
    by (simp add: SetDefaultFormat_def world_custom_default_def)
  have short: "parseFormat initial_world [] = Some (initial_defFmt, ''2006-01-02 15:04:05'')"
    "parseFormat world_custom_default [] = Some (''%[2]s %[7]s'', ''2006'')"
    by (simp_all add: parseFormat_def initial_world_def world_custom_default_def
        initial_defTimeFmt_def)
  have "initial_defFmt \<noteq> ''%[2]s %[7]s''"
    by (simp add: initial_defFmt_def)
  with set short parseFormat_message_initial parseFormat_message_custom show ?thesis
    by simp
qed

section \<open>A second placeholder before the closing brace (claim C8)\<close>

lemma IndexRune_ge: "-1 \<le> IndexRune s c"
  by (induction s) (auto simp: Let_def)

lemma IndexRune_notin: "c \<notin> set s \<Longrightarrow> IndexRune s c = -1"
  by (induction s) (auto simp: Let_def)

lemma IndexRune_in: "c \<in> set s \<Longrightarrow> 0 \<le> IndexRune s c"
  by (induction s) (auto simp: Let_def)

lemma IndexRune_append:
  "c \<notin> set xs \<Longrightarrow>
     IndexRune (xs @ ys) c = (if IndexRune ys c = -1 then -1 else int (length xs) + IndexRune ys c)"
  using IndexRune_ge [of ys c]
  by (induction xs) (auto simp: Let_def)

lemma Index_placeholder:
  "CHR ''%'' \<notin> set xs \<Longrightarrow> Index (xs @ ''%{'' @ ys) ''%{'' = int (length xs)"
  by (induction xs) (auto simp: Let_def)

lemma loop_body_shift:
  "0 \<le> i \<Longrightarrow> loop_body m t f i = loop_body (m @ take (nat i) f) t (drop (nat i) f) 0"
  by (simp add: loop_body_def)

lemma parseLoop_shift:
  assumes "0 \<le> i"
  shows "parseLoop m t f i = parseLoop (m @ take (nat i) f) t (drop (nat i) f) 0"
proof -
  obtain m' t' f' i' where b: "loop_body m t f i = (m', t', f', i')"
    by (cases "loop_body m t f i") auto
  with assms have "loop_body (m @ take (nat i) f) t (drop (nat i) f) 0 = (m', t', f', i')"
    by (simp add: loop_body_shift [symmetric])
  with b assms show ?thesis
    by (simp add: parseLoop_step [where i = i] parseLoop_step [where i = 0])
qed

lemma loop_body_dangling:
  assumes "CHR ''%'' \<notin> set a" and "CHR ''}'' \<notin> set a" and "CHR ''}'' \<in> set b"
  shows "loop_body m t (''%{'' @ a @ ''%{'' @ b) 0
           = (m @ ''%%'', t, ''{'' @ a @ ''%{'' @ b, int (length a) + 1)"
proof -
  have idx1: "Index (''{'' @ a @ ''%{'' @ b) ''%{'' = int (length a) + 1"
    using Index_placeholder [of "''{'' @ a" b] assms(1) by simp
  have "0 \<le> IndexRune b (CHR ''}'')"
    using assms(3) by (rule IndexRune_in)
  moreover have "IndexRune (''%{'' @ a @ ''%{'' @ b) (CHR ''}'')
      = (if IndexRune b (CHR ''}'') = -1 then -1 else int (length a) + 4 + IndexRune b (CHR ''}''))"
    using IndexRune_append [of "CHR ''}''" "''%{'' @ a @ ''%{''" b] assms(2) by simp
  ultimately have jdx: "IndexRune (''%{'' @ a @ ''%{'' @ b) (CHR ''}'') \<noteq> -1"
    "int (length a) + 1 < IndexRune (''%{'' @ a @ ''%{'' @ b) (CHR ''}'')"
    by auto
  show ?thesis
    using idx1 jdx by (simp add: loop_body_def Let_def)
qed
lemma Index_ge: "-1 \<le> Index s sub"
  by (induction s) (auto simp: Let_def)

lemma Index_append_no_percent:
  "CHR ''%'' \<notin> set xs \<Longrightarrow>
     Index (xs @ ys) ''%{'' = (if Index ys ''%{'' = -1 then -1 else int (length xs) + Index ys ''%{'')"
  using Index_ge [of ys "''%{''"]
  by (induction xs) (auto simp: Let_def)

lemma ph2verb_plain:
  assumes "CHR '':'' \<notin> set name"
  shows "ph2verb (''%{'' @ name @ ''}'') = (phfs (''%{'' @ name @ ''}''), [])"
proof (cases "name = []")
  case True
  then show ?thesis
    by (simp add: ph2verb_def phfs_def phfs_table_def)
next
  case False
  then have len: "\<not> length (''%{'' @ name @ ''}'') < 4"
    by (cases name) auto
  have last: "(''%{'' @ name @ ''}'') ! (length (''%{'' @ name @ ''}'') - 1) = CHR ''}''"
    by (simp add: nth_append)
  have "IndexRune (''%{'' @ name @ ''}'') (CHR '':'') = -1"
    using assms by (intro IndexRune_notin) simp
  with len last show ?thesis
    unfolding ph2verb_def Let_def by simp
qed

lemma loop_body_wellformed:
  assumes "CHR ''%'' \<notin> set name" and "CHR ''}'' \<notin> set name" and "CHR '':'' \<notin> set name"
  shows "loop_body m t (''%{'' @ name @ ''}'' @ rest) 0
           = (m @ phfs (''%{'' @ name @ ''}''), t, rest, IndexRune rest (CHR ''%''))"
proof -
  define fmt where "fmt = ''%{'' @ name @ ''}'' @ rest"
  have jdx: "IndexRune fmt (CHR ''}'') = int (length name) + 2"
    using IndexRune_append [of "CHR ''}''" "''%{'' @ name" "''}'' @ rest"] assms(2)
    by (simp add: fmt_def)
  have "Index (drop 1 fmt) ''%{''
      = (if Index rest ''%{'' = -1 then -1 else int (length name) + 2 + Index rest ''%{'')"
    using Index_append_no_percent [of "''{'' @ name @ ''}''" rest] assms(1)
    by (simp add: fmt_def)
  with Index_ge [of rest "''%{''"]
  have idx1: "\<not> (Index (drop 1 fmt) ''%{'' \<noteq> -1
      \<and> Index (drop 1 fmt) ''%{'' < int (length name) + 2)"
    by auto
  have tk: "take (Suc (nat (int (length name) + 2))) fmt = ''%{'' @ name @ ''}''"
    and dr: "drop (Suc (nat (int (length name) + 2))) fmt = rest"
    and brace: "fmt ! 1 = CHR ''{''"
    and len: "2 < length fmt"
    by (simp_all add: nat_add_distrib fmt_def)
  have "loop_body m t fmt 0
      = (m @ phfs (''%{'' @ name @ ''}''), t, rest, IndexRune rest (CHR ''%''))"
    using idx1 len brace
    by (auto simp: loop_body_def Let_def jdx tk [simplified] dr
        ph2verb_plain [OF assms(3), simplified])
  then show ?thesis
    by (simp only: fmt_def)
qed

lemma parseLoop_dangling:
  assumes "CHR ''%'' \<notin> set a" and "CHR ''}'' \<notin> set a" and "CHR ''}'' \<in> set b"
  shows "parseLoop m t (p @ ''%{'' @ a @ ''%{'' @ b) (int (length p))
           = parseLoop (m @ p @ ''%%{'' @ a) t (''%{'' @ b) 0"
proof -
  have "parseLoop m t (p @ ''%{'' @ a @ ''%{'' @ b) (int (length p))
      = parseLoop (m @ p) t (''%{'' @ a @ ''%{'' @ b) 0"
    using parseLoop_shift [of "int (length p)" m t "p @ ''%{'' @ a @ ''%{'' @ b"] by simp
  also have "\<dots> = parseLoop (m @ p @ ''%%'') t (''{'' @ a @ ''%{'' @ b) (int (length a) + 1)"
    using loop_body_dangling [OF assms, of "m @ p" t]
    by (simp add: parseLoop_step [where i = 0])
  also have "\<dots> = parseLoop (m @ p @ ''%%{'' @ a) t (''%{'' @ b) 0"
    using parseLoop_shift [of "int (length a) + 1" "m @ p @ ''%%''" t "''{'' @ a @ ''%{'' @ b"]
    by (simp add: nat_add_distrib)
  finally show ?thesis .
qed

lemma parseLoop_wellformed:
  assumes "CHR ''%'' \<notin> set name" and "CHR ''}'' \<notin> set name" and "CHR '':'' \<notin> set name"
  shows "parseLoop m t (''%{'' @ name @ ''}'' @ rest) 0
           = parseLoop (m @ phfs (''%{'' @ name @ ''}'')) t rest (IndexRune rest (CHR ''%''))"
  using loop_body_wellformed [OF assms, of m t rest]
  by (simp add: parseLoop_step [where i = 0])

text \<open>
  Claim C8, amended.  Let a \<open>%{\<close> be followed by text \<open>a\<close> without \<open>%\<close> and without
  \<open>}\<close>, and then by a second \<open>%{\<close> with a \<open>}\<close> somewhere after it.  The compiler
  emits the escaped percent \<open>%%\<close> (one literal \<open>%\<close> when rendered) for the dangling
  \<open>%\<close>, resumes one character later, and copies the text from the dangling \<open>{\<close>
  up to the second \<open>%{\<close> verbatim: the opening brace is kept, not consumed.  The
  scan then stands at the second \<open>%{\<close> as at any placeholder.  If that one is well
  formed (a name without \<open>%\<close>, \<open>}\<close> and \<open>:\<close>, closed by \<open>}\<close>) it is replaced by its
  verb from the placeholder table, and the scan goes on behind it.
\<close>

theorem premature_placeholder_rule:
  "(CHR ''%'' \<notin> set a \<and> CHR ''}'' \<notin> set a \<and> CHR ''}'' \<in> set b \<longrightarrow>
      parseLoop m t (p @ ''%{'' @ a @ ''%{'' @ b) (int (length p))
        = parseLoop (m @ p @ ''%%{'' @ a) t (''%{'' @ b) 0)
   \<and> (CHR ''%'' \<notin> set a \<and> CHR ''}'' \<notin> set a
        \<and> CHR ''%'' \<notin> set name \<and> CHR ''}'' \<notin> set name \<and> CHR '':'' \<notin> set name \<longrightarrow>
      parseLoop m t (p @ ''%{'' @ a @ ''%{'' @ name @ ''}'' @ rest) (int (length p))
        = parseLoop (m @ p @ ''%%{'' @ a @ phfs (''%{'' @ name @ ''}'')) t rest
            (IndexRune rest (CHR ''%'')))
   \<and> (CHR ''%'' \<notin> set a \<and> CHR ''}'' \<notin> set a
        \<and> CHR ''%'' \<notin> set name \<and> CHR ''}'' \<notin> set name \<and> CHR '':'' \<notin> set name
        \<and> CHR ''%'' \<notin> set p \<and> CHR ''%'' \<notin> set rest
        \<and> 10 \<le> length (p @ ''%{'' @ a @ ''%{'' @ name @ ''}'' @ rest) \<longrightarrow>
      parseFormat \<sigma> (p @ ''%{'' @ a @ ''%{'' @ name @ ''}'' @ rest)
        = Some (p @ ''%%{'' @ a @ phfs (''%{'' @ name @ ''}'') @ rest, defTimeFmt \<sigma>))"
proof -
  have first: "parseLoop m t (p @ ''%{'' @ a @ ''%{'' @ b) (int (length p))
        = parseLoop (m @ p @ ''%%{'' @ a) t (''%{'' @ b) 0"
    if "CHR ''%'' \<notin> set a" and "CHR ''}'' \<notin> set a" and "CHR ''}'' \<in> set b"
    for m p b
    using that by (rule parseLoop_dangling)
  have second: "parseLoop m t (p @ ''%{'' @ a @ ''%{'' @ name @ ''}'' @ rest) (int (length p))
        = parseLoop (m @ p @ ''%%{'' @ a @ phfs (''%{'' @ name @ ''}'')) t rest
            (IndexRune rest (CHR ''%''))"
    if a: "CHR ''%'' \<notin> set a" "CHR ''}'' \<notin> set a"
      and n: "CHR ''%'' \<notin> set name" "CHR ''}'' \<notin> set name" "CHR '':'' \<notin> set name"
    for m t p
  proof -
    have "parseLoop m t (p @ ''%{'' @ a @ ''%{'' @ (name @ ''}'' @ rest)) (int (length p))
        = parseLoop (m @ p @ ''%%{'' @ a) t (''%{'' @ (name @ ''}'' @ rest)) 0"
      using a by (intro parseLoop_dangling) simp_all
    also have "\<dots> = parseLoop ((m @ p @ ''%%{'' @ a) @ phfs (''%{'' @ name @ ''}'')) t rest
            (IndexRune rest (CHR ''%''))"
      using parseLoop_wellformed [OF n, of "m @ p @ ''%%{'' @ a" t rest] by simp
    finally show ?thesis by simp
  qed
  have third: "parseFormat \<sigma> (p @ ''%{'' @ a @ ''%{'' @ name @ ''}'' @ rest)
        = Some (p @ ''%%{'' @ a @ phfs (''%{'' @ name @ ''}'') @ rest, defTimeFmt \<sigma>)"
    if a: "CHR ''%'' \<notin> set a" "CHR ''}'' \<notin> set a"
      and n: "CHR ''%'' \<notin> set name" "CHR ''}'' \<notin> set name" "CHR '':'' \<notin> set name"
      and p: "CHR ''%'' \<notin> set p" and r: "CHR ''%'' \<notin> set rest"
      and len: "10 \<le> length (p @ ''%{'' @ a @ ''%{'' @ name @ ''}'' @ rest)"
  proof -
    have "IndexRune (p @ ''%{'' @ a @ ''%{'' @ name @ ''}'' @ rest) (CHR ''%'') = int (length p)"
      using IndexRune_append [OF p, of "''%{'' @ a @ ''%{'' @ name @ ''}'' @ rest"] by simp
    with len have "parseFormat \<sigma> (p @ ''%{'' @ a @ ''%{'' @ name @ ''}'' @ rest)
        = parseLoop [] (defTimeFmt \<sigma>) (p @ ''%{'' @ a @ ''%{'' @ name @ ''}'' @ rest)
            (int (length p))"
      by (simp add: parseFormat_long)
    also have "\<dots> = parseLoop ([] @ p @ ''%%{'' @ a @ phfs (''%{'' @ name @ ''}''))
        (defTimeFmt \<sigma>) rest (IndexRune rest (CHR ''%''))"
      using a n by (rule second)
    also have "\<dots> = Some (p @ ''%%{'' @ a @ phfs (''%{'' @ name @ ''}'') @ rest, defTimeFmt \<sigma>)"
      using IndexRune_notin [OF r] by (simp add: parseLoop_done)
    finally show ?thesis .
  qed
  from first second third show ?thesis by blast
qed

theorem premature_placeholder_rule_witness:
  "parseFormat initial_world ''%{inv %{message}''
     = Some (''%%{inv %[7]s'', ''2006-01-02 15:04:05'')
   \<and> parseFormat initial_world ''at %{oops %{level}: done''
     = Some (''at %%{oops %[6]s: done'', ''2006-01-02 15:04:05'')"
proof -
  have "phfs ''%{message}'' = ''%[7]s''" and "phfs ''%{level}'' = ''%[6]s''"
    by (simp_all add: phfs_def phfs_table_def)
  with premature_placeholder_rule [where p = "[]" and a = "''inv ''" and name = "''message''"
      and rest = "[]" and \<sigma> = initial_world]
    premature_placeholder_rule [where p = "''at ''" and a = "''oops ''" and name = "''level''"
      and rest = "'': done''" and \<sigma> = initial_world]
  show ?thesis
    by (simp add: initial_world_def initial_defTimeFmt_def)
qed

text \<open>The claim as stated says the opening brace of the dangling \<open>%{\<close> is consumed.
  For \<open>%{inv %{message}\<close> the brace is in the compiled template and in the
  rendered line.\<close>

theorem premature_placeholder_brace_counterexample:
  "parseFormat initial_world ''%{inv %{message}''
     = Some (''%%{inv %[7]s'', ''2006-01-02 15:04:05'')
   \<and> parseFormat initial_world ''%{inv %{message}''
     \<noteq> Some (''%%inv %[7]s'', ''2006-01-02 15:04:05'')
   \<and> Output (info_example WarningLevel) ''%%{inv %[7]s'' = Inr ''%{inv hello''
   \<and> Output (info_example WarningLevel) ''%%{inv %[7]s'' \<noteq> Inr ''%inv hello''"
proof -
  have "parseFormat initial_world ''%{inv %{message}''
     = Some (''%%{inv %[7]s'', ''2006-01-02 15:04:05'')"
    by code_simp
  moreover have "Output (info_example WarningLevel) ''%%{inv %[7]s'' = Inr ''%{inv hello''"
    by code_simp
  ultimately show ?thesis by simp
qed

end
